theory Spec2Isabelle
  imports Complex_Main
begin

section \<open>Values, failures and the platform\<close>

text \<open>
  A shallow embedding of \<^verbatim>\<open>yuyo/reactions.py\<close> and \<^verbatim>\<open>yuyo/components.py\<close>.
  Identifiers of users, messages and custom emojis are snowflakes (non-negative integers);
  instants and durations are integers (the microseconds \<^verbatim>\<open>datetime\<close> counts);
  the seconds of a rate limit and of \<^verbatim>\<open>max_backoff\<close> are Python floats, read as reals.
\<close>

type_synonym snowflake = nat
type_synonym time = int

text \<open>Every exception the two modules raise or catch.\<close>

datatype error =
    HandlerClosed
  | RuntimeError string
  | ValueError string
  | LookupError string
  | KeyError
  | TypeError string
  | AssertionError
  | IndexError
  | InvalidStateError
  | NotFoundError
  | ForbiddenError
  | RateLimitedError real
  | InternalServerError

text \<open>A call either returns a value or raises.\<close>

datatype 'a result = Return 'a | Raise error

text \<open>
  An embed is opaque to the paginator. A page (\<^verbatim>\<open>EntryT\<close>) is a pair of an optional
  content and an optional embed, where \<open>None\<close> stands for \<^verbatim>\<open>hikari.undefined.UNDEFINED\<close>.
\<close>

datatype embed = Embed string

type_synonym entry = "string option \<times> embed option"

text \<open>
  What a component callback answers an interaction with. The arguments of an initial
  response: the content, a single component or a sequence of them, a single embed or a
  sequence of them, the flags (\<open>None\<close> is \<^verbatim>\<open>UNDEFINED\<close>), and the values that are only
  passed on (\<^verbatim>\<open>tts\<close> and the three mention settings), kept together.
\<close>

datatype component = Component string

datatype response_type = MESSAGE_CREATE | DEFERRED_MESSAGE_CREATE | DEFERRED_MESSAGE_UPDATE

record response_args =
  arg_content :: "string option"
  arg_component :: "component option"
  arg_components :: "component list option"
  arg_embed :: "embed option"
  arg_embeds :: "embed list option"
  arg_flags :: "int option"
  arg_options :: "bool option list"

text \<open>An initial response reaches the platform either as a REST request
  (\<^verbatim>\<open>interaction.create_initial_response\<close>, with the arguments as they were given and
  the flags resolved) or as the builder object a response future is resolved with.\<close>

datatype request = Create_initial_response response_type "response_args option" int

datatype response =
    Message_builder response_type "string option" "component list option" "embed list option" int
  | Deferred_builder response_type int

text \<open>
  The chat platform is an external collaborator. Its state, as far as the handlers can
  observe or change it: \<open>shown m\<close> is the page last rendered to message \<open>m\<close> (the content and
  embed of the last accepted create or edit request), \<open>reactions\<close> the reaction markers the
  bot has attached, \<open>initial_responses\<close> the initial responses to the interaction at hand
  that the platform has accepted over REST, \<open>answers k\<close> the platform's answer to the
  \<open>k\<close>-th REST request and \<open>calls\<close> the number of requests made so far, \<open>next_message\<close> the
  identifier the platform gives to the next message it creates. \<open>tasks\<close> is the event loop's
  queue of the coroutines of reactions.py handed to \<^verbatim>\<open>asyncio.create_task\<close>: they have
  been scheduled and have not run yet.
\<close>

datatype reply = Done | Failed error

datatype task =
    Close_task "snowflake option"
  | Delete_message_task snowflake

record world =
  shown :: "snowflake \<rightharpoonup> entry"
  reactions :: "(snowflake \<times> string) list"
  initial_responses :: "request list"
  answers :: "nat \<Rightarrow> reply"
  calls :: nat
  next_message :: snowflake
  tasks :: "task list"

text \<open>One REST request: the platform's next answer, and the request counted.\<close>

definition rest :: "world \<Rightarrow> reply \<times> world" where
  "rest w = (answers w (calls w), w\<lparr>calls := Suc (calls w)\<rparr>)"

text \<open>\<^verbatim>\<open>asyncio.create_task\<close>: the coroutine joins the queue; it does not run before the
  caller next suspends.\<close>

definition create_task :: "task \<Rightarrow> world \<Rightarrow> world" where
  "create_task t w = w\<lparr>tasks := tasks w @ [t]\<rparr>"

text \<open>Python's \<^verbatim>\<open>xs[i]\<close>: a negative index counts from the end, and an index out of
  range raises.\<close>

definition getitem :: "'a list \<Rightarrow> int \<Rightarrow> 'a result" where
  "getitem xs i =
     (if 0 \<le> i \<and> i < int (length xs) then Return (xs ! nat i)
      else if i < 0 \<and> - int (length xs) \<le> i then Return (xs ! nat (int (length xs) + i))
      else Raise IndexError)"

section \<open>Reaction handlers (reactions.py)\<close>

subsection \<open>Events and trigger keys\<close>

text \<open>A reaction event carries the acting user, the target message and the emoji, which
  has an identifier when it is a custom emoji and a name otherwise.\<close>

record event =
  user_id :: snowflake
  message_id :: snowflake
  emoji_id :: "snowflake option"
  emoji_name :: "string option"

text \<open>The keys of a callback table are \<^verbatim>\<open>Union[str, int]\<close>.\<close>

datatype emoji_identifier = Name string | Id snowflake

text \<open>\<^verbatim>\<open>event.emoji_id or event.emoji_name\<close>: the identifier when it is truthy (neither
  \<^verbatim>\<open>None\<close> nor 0), the name otherwise; \<open>None\<close> when the result is \<^verbatim>\<open>None\<close>.\<close>

definition emoji_identifier_of :: "event \<Rightarrow> emoji_identifier option" where
  "emoji_identifier_of ev =
     (case emoji_id ev of
        None \<Rightarrow> map_option Name (emoji_name ev)
      | Some i \<Rightarrow> if i = 0 then map_option Name (emoji_name ev) else Some (Id i))"

subsection \<open>ReactionHandler\<close>

text \<open>
  The fields of \<^verbatim>\<open>ReactionHandler\<close>. \<open>'cb\<close> is the type of the callbacks in the table;
  what running one does is given to \<open>on_reaction_event\<close> as the function \<open>call\<close>. The lock
  only serialises concurrent events of one handler; here every event is processed to its
  end before the next one, so the lock has no field.
\<close>

record 'cb reaction_handler =
  authors :: "snowflake set"
  callbacks :: "emoji_identifier \<rightharpoonup> 'cb"
  last_triggered :: time
  message :: "snowflake option"
  timeout :: time

text \<open>\<^verbatim>\<open>ReactionHandler.__init__\<close>, called at the instant \<open>now\<close>, for a plain handler (no
  callback is loaded from attributes).\<close>

definition ReactionHandler_init :: "snowflake set \<Rightarrow> time \<Rightarrow> time \<Rightarrow> 'cb reaction_handler" where
  "ReactionHandler_init as t now =
     \<lparr>authors = as, callbacks = Map.empty, last_triggered = now, message = None, timeout = t\<rparr>"

definition expired :: "time \<Rightarrow> ('cb, 'm) reaction_handler_scheme \<Rightarrow> bool" where
  "expired now h = (timeout h < now - last_triggered h)"

definition ReactionHandler_open ::
  "snowflake \<Rightarrow> ('cb, 'm) reaction_handler_scheme \<Rightarrow> ('cb, 'm) reaction_handler_scheme" where
  "ReactionHandler_open m h = h\<lparr>message := Some m\<rparr>"


definition add_callback ::
  "emoji_identifier \<Rightarrow> 'cb \<Rightarrow> ('cb, 'm) reaction_handler_scheme \<Rightarrow> ('cb, 'm) reaction_handler_scheme" where
  "add_callback k cb h = h\<lparr>callbacks := (callbacks h)(k \<mapsto> cb)\<rparr>"

definition remove_callback ::
  "emoji_identifier \<Rightarrow> ('cb, 'm) reaction_handler_scheme \<Rightarrow> unit result \<times> ('cb, 'm) reaction_handler_scheme" where
  "remove_callback k h =
     (case callbacks h k of
        None \<Rightarrow> (Raise KeyError, h)
      | Some cb \<Rightarrow> (Return (), h\<lparr>callbacks := (callbacks h)(k := None)\<rparr>))"

text \<open>
  \<^verbatim>\<open>ReactionHandler.on_reaction_event\<close>. \<open>now\<close> is the clock when the event arrives and
  \<open>later\<close> the clock when the callback has returned. The result is \<open>None\<close> when the callback
  never returns.

  The test \<^verbatim>\<open>if not self._lock\<close> never holds, a lock being a truthy object, and a callback
  that raises leaves \<open>last_triggered\<close> as it was.

  The first branch ends in a bare \<^verbatim>\<open>raise\<close> statement. No exception is being handled
  there, so Python raises \<^verbatim>\<open>RuntimeError("No active exception to reraise")\<close>; the
  \<^verbatim>\<open>close()\<close> coroutine has only been scheduled by then.
\<close>

definition on_reaction_event ::
  "('cb \<Rightarrow> event \<Rightarrow> ('cb, 'm) reaction_handler_scheme \<times> world
      \<Rightarrow> (unit result \<times> ('cb, 'm) reaction_handler_scheme \<times> world) option)
   \<Rightarrow> time \<Rightarrow> time \<Rightarrow> event \<Rightarrow> ('cb, 'm) reaction_handler_scheme \<times> world
   \<Rightarrow> (unit result \<times> ('cb, 'm) reaction_handler_scheme \<times> world) option" where
  "on_reaction_event call now later ev s =
     (case s of (h, w) \<Rightarrow>
        if expired now h then
          Some (Raise (RuntimeError ''No active exception to reraise''), h,
                create_task (Close_task (message h)) w)
        else if message h = None \<or> (authors h \<noteq> {} \<and> user_id ev \<notin> authors h) then
          Some (Return (), h, w)
        else
          (case emoji_identifier_of ev of
             None \<Rightarrow> Some (Raise AssertionError, h, w)
           | Some k \<Rightarrow>
               (case callbacks h k of
                  None \<Rightarrow> Some (Return (), h, w)
                | Some method \<Rightarrow>
                    (case call method ev (h, w) of
                       None \<Rightarrow> None
                     | Some (Raise e, h', w') \<Rightarrow> Some (Raise e, h', w')
                     | Some (Return u, h', w') \<Rightarrow>
                         Some (Return (), h'\<lparr>last_triggered := later\<rparr>, w')))))"

subsection \<open>ReactionClient\<close>

text \<open>The registry: the blacklist of users and the mapping from message identifiers to
  handlers. A handler is an object shared with the mapping, so the entry follows every
  change the handler makes to itself.\<close>

record 'h reaction_client =
  blacklist :: "snowflake list"
  listeners :: "snowflake \<rightharpoonup> 'h"

definition ReactionClient_on_reaction_event ::
  "('cb \<Rightarrow> event \<Rightarrow> ('cb, 'm) reaction_handler_scheme \<times> world
      \<Rightarrow> (unit result \<times> ('cb, 'm) reaction_handler_scheme \<times> world) option)
   \<Rightarrow> time \<Rightarrow> time \<Rightarrow> event
   \<Rightarrow> ('cb, 'm) reaction_handler_scheme reaction_client \<times> world
   \<Rightarrow> (unit result \<times> ('cb, 'm) reaction_handler_scheme reaction_client \<times> world) option" where
  "ReactionClient_on_reaction_event call now later ev s =
     (case s of (c, w) \<Rightarrow>
        if user_id ev \<in> set (blacklist c) then Some (Return (), c, w)
        else
          (case listeners c (message_id ev) of
             None \<Rightarrow> Some (Return (), c, w)
           | Some listener \<Rightarrow>
               (case on_reaction_event call now later ev (listener, w) of
                  None \<Rightarrow> None
                | Some (Raise HandlerClosed, l', w') \<Rightarrow>
                    Some (Return (), c\<lparr>listeners := (listeners c)(message_id ev := None)\<rparr>, w')
                | Some (Raise e, l', w') \<Rightarrow>
                    Some (Raise e, c\<lparr>listeners := (listeners c)(message_id ev \<mapsto> l')\<rparr>, w')
                | Some (Return u, l', w') \<Rightarrow>
                    Some (Return (), c\<lparr>listeners := (listeners c)(message_id ev \<mapsto> l')\<rparr>, w'))))"

definition add_handler :: "snowflake \<Rightarrow> 'h \<Rightarrow> 'h reaction_client \<Rightarrow> 'h reaction_client" where
  "add_handler m paginator c = c\<lparr>listeners := (listeners c)(m \<mapsto> paginator)\<rparr>"

definition get_handler :: "snowflake \<Rightarrow> 'h reaction_client \<Rightarrow> 'h option" where
  "get_handler m c = listeners c m"

text \<open>\<^verbatim>\<open>remove_handler\<close> is \<^verbatim>\<open>self._listeners.pop(key)\<close> with no default. Its declared
  return type is \<^verbatim>\<open>Optional[AbstractReactionHandler]\<close>, hence the option.\<close>

definition remove_handler ::
  "snowflake \<Rightarrow> 'h reaction_client \<Rightarrow> 'h option result \<times> 'h reaction_client" where
  "remove_handler m c =
     (case listeners c m of
        None \<Rightarrow> (Raise KeyError, c)
      | Some l \<Rightarrow> (Return (Some l), c\<lparr>listeners := (listeners c)(m := None)\<rparr>))"

subsection \<open>ReactionPaginator\<close>

text \<open>The five trigger emojis, as the bytes of their UTF-8 encodings: each is one symbol
  followed by VARIATION SELECTOR-16.\<close>

definition LEFT_DOUBLE_TRIANGLE :: string where
  "LEFT_DOUBLE_TRIANGLE = [CHR 0xE2, CHR 0x8F, CHR 0xAE, CHR 0xEF, CHR 0xB8, CHR 0x8F]"

definition LEFT_TRIANGLE :: string where
  "LEFT_TRIANGLE = [CHR 0xE2, CHR 0x97, CHR 0x80, CHR 0xEF, CHR 0xB8, CHR 0x8F]"

definition STOP_SQUARE :: string where
  "STOP_SQUARE = [CHR 0xE2, CHR 0x8F, CHR 0xB9, CHR 0xEF, CHR 0xB8, CHR 0x8F]"

definition RIGHT_TRIANGLE :: string where
  "RIGHT_TRIANGLE = [CHR 0xE2, CHR 0x96, CHR 0xB6, CHR 0xEF, CHR 0xB8, CHR 0x8F]"

definition RIGHT_DOUBLE_TRIANGLE :: string where
  "RIGHT_DOUBLE_TRIANGLE = [CHR 0xE2, CHR 0x8F, CHR 0xAD, CHR 0xEF, CHR 0xB8, CHR 0x8F]"

text \<open>The default of the \<^verbatim>\<open>triggers\<close> argument.\<close>

definition default_triggers :: "string list" where
  "default_triggers = [LEFT_TRIANGLE, STOP_SQUARE, RIGHT_TRIANGLE]"

text \<open>The callbacks of a paginator are its own bound methods.\<close>

datatype paginator_callback = On_first | On_previous | On_disable | On_next | On_last

text \<open>
  \<^verbatim>\<open>ReactionPaginator\<close> extends \<^verbatim>\<open>ReactionHandler\<close> by the buffer of pages already taken
  from the source, the cursor, the source iterator and the triggers. The iterator is the
  list of the entries it has yet to yield, so a source is a finite sequence here: on an
  endless iterator \<^verbatim>\<open>_on_last\<close> would never return.
\<close>

record reaction_paginator = "paginator_callback reaction_handler" +
  buffer :: "entry list"
  index :: int
  iterator :: "entry list"
  triggers :: "string list"

text \<open>\<^verbatim>\<open>ReactionPaginator.__init__\<close>, called at the instant \<open>now\<close>. Its first statement
  rejects an argument that is not an iterator with \<^verbatim>\<open>ValueError\<close>; here the argument is
  an iterator by its type. The cursor starts at 0 over an empty buffer.\<close>

definition ReactionPaginator_init ::
  "entry list \<Rightarrow> snowflake set \<Rightarrow> string list \<Rightarrow> time \<Rightarrow> time \<Rightarrow> reaction_paginator" where
  "ReactionPaginator_init it as trs t now =
     (let h0 = \<lparr>authors = as, callbacks = Map.empty, last_triggered = now, message = None,
                timeout = t, buffer = [], index = 0, iterator = it, triggers = trs\<rparr>;
          h1 = (if LEFT_DOUBLE_TRIANGLE \<in> set trs
                then add_callback (Name LEFT_DOUBLE_TRIANGLE) On_first h0 else h0);
          h2 = (if LEFT_TRIANGLE \<in> set trs
                then add_callback (Name LEFT_TRIANGLE) On_previous h1 else h1);
          h3 = (if STOP_SQUARE \<in> set trs
                then add_callback (Name STOP_SQUARE) On_disable h2 else h2);
          h4 = (if RIGHT_TRIANGLE \<in> set trs
                then add_callback (Name RIGHT_TRIANGLE) On_next h3 else h3)
      in if RIGHT_DOUBLE_TRIANGLE \<in> set trs
         then add_callback (Name RIGHT_DOUBLE_TRIANGLE) On_last h4 else h4)"

text \<open>
  \<^verbatim>\<open>_edit_message\<close>: the edit is retried without bound (\<^verbatim>\<open>Backoff()\<close> has no retry
  ceiling) while the platform answers with a server error or a rate limit, so it never
  returns (\<open>None\<close>) when the platform never stops doing so. The waits between attempts
  are time only.
\<close>

partial_function (option) edit_message ::
  "reaction_paginator \<Rightarrow> string option \<Rightarrow> embed option \<Rightarrow> world \<Rightarrow> (unit result \<times> world) option" where
  "edit_message h content emb w =
     (case message h of
        None \<Rightarrow> Some (Return (), w)
      | Some m \<Rightarrow>
          (case rest w of
             (Done, w') \<Rightarrow> Some (Return (), w'\<lparr>shown := (shown w')(m \<mapsto> (content, emb))\<rparr>)
           | (Failed InternalServerError, w') \<Rightarrow> edit_message h content emb w'
           | (Failed (RateLimitedError t), w') \<Rightarrow> edit_message h content emb w'
           | (Failed NotFoundError, w') \<Rightarrow> Some (Raise HandlerClosed, w')
           | (Failed ForbiddenError, w') \<Rightarrow> Some (Raise HandlerClosed, w')
           | (Failed e, w') \<Rightarrow> Some (Raise e, w')))"

declare edit_message.simps [code]

text \<open>The answers on which \<^verbatim>\<open>_edit_message\<close> tries again.\<close>

definition retried :: "reply \<Rightarrow> bool" where
  "retried a =
     (case a of
        Failed InternalServerError \<Rightarrow> True
      | Failed (RateLimitedError t) \<Rightarrow> True
      | _ \<Rightarrow> False)"

text \<open>A page is rendered with the paginator in a given state: the outcome of the edit
  beside that state.\<close>

definition render ::
  "reaction_paginator \<Rightarrow> entry \<Rightarrow> world \<Rightarrow> (unit result \<times> reaction_paginator \<times> world) option" where
  "render h page w =
     (case edit_message h (fst page) (snd page) w of
        None \<Rightarrow> None
      | Some (r, w') \<Rightarrow> Some (r, h, w'))"

definition on_disable ::
  "event \<Rightarrow> reaction_paginator \<times> world \<Rightarrow> (unit result \<times> reaction_paginator \<times> world) option" where
  "on_disable ev s =
     (case s of (h, w) \<Rightarrow>
        (case message h of
           Some m \<Rightarrow>
             Some (Raise HandlerClosed, h\<lparr>message := None\<rparr>, create_task (Delete_message_task m) w)
         | None \<Rightarrow> Some (Raise HandlerClosed, h, w)))"

definition on_first ::
  "event \<Rightarrow> reaction_paginator \<times> world \<Rightarrow> (unit result \<times> reaction_paginator \<times> world) option" where
  "on_first ev s =
     (case s of (h, w) \<Rightarrow>
        if index h = 0 then Some (Return (), h, w)
        else (case getitem (buffer h) 0 of
                Raise e \<Rightarrow> Some (Raise e, h, w)
              | Return page \<Rightarrow> render h page w))"

text \<open>\<^verbatim>\<open>_on_last\<close>: the rest of the source joins the buffer; \<^verbatim>\<open>self._buffer[-1]\<close> of a
  non-empty buffer is its last page.\<close>

definition on_last ::
  "event \<Rightarrow> reaction_paginator \<times> world \<Rightarrow> (unit result \<times> reaction_paginator \<times> world) option" where
  "on_last ev s =
     (case s of (h, w) \<Rightarrow>
        (let h1 = h\<lparr>buffer := buffer h @ iterator h, iterator := []\<rparr>
         in if buffer h1 = [] then Some (Return (), h1, w)
            else render (h1\<lparr>index := int (length (buffer h1)) - 1\<rparr>) (last (buffer h1)) w))"

text \<open>Modelled from the spec: \<^verbatim>\<open>pagination.seek_iterator\<close> is not among the sources.
  Forward stepping "pulls exactly one more item from the source sequence": the next entry
  beside the rest of the iterator, or the default \<^verbatim>\<open>None\<close> when the iterator is at its
  end.\<close>

fun seek_iterator :: "'a list \<Rightarrow> 'a option \<times> 'a list" where
  "seek_iterator [] = (None, [])"
| "seek_iterator (x # xs) = (Some x, xs)"

definition get_next_entry :: "reaction_paginator \<Rightarrow> entry option result \<times> reaction_paginator" where
  "get_next_entry h =
     (if index h + 2 \<le> int (length (buffer h)) then
        (let h' = h\<lparr>index := index h + 1\<rparr>
         in case getitem (buffer h') (index h') of
              Raise e \<Rightarrow> (Raise e, h')
            | Return page \<Rightarrow> (Return (Some page), h'))
      else
        (case seek_iterator (iterator h) of
           (None, it) \<Rightarrow> (Return None, h\<lparr>iterator := it\<rparr>)
         | (Some page, it) \<Rightarrow>
             (Return (Some page),
              h\<lparr>index := index h + 1, buffer := buffer h @ [page], iterator := it\<rparr>)))"

definition on_next ::
  "event \<Rightarrow> reaction_paginator \<times> world \<Rightarrow> (unit result \<times> reaction_paginator \<times> world) option" where
  "on_next ev s =
     (case s of (h, w) \<Rightarrow>
        (case get_next_entry h of
           (Raise e, h') \<Rightarrow> Some (Raise e, h', w)
         | (Return None, h') \<Rightarrow> Some (Return (), h', w)
         | (Return (Some page), h') \<Rightarrow> render h' page w))"

definition on_previous ::
  "event \<Rightarrow> reaction_paginator \<times> world \<Rightarrow> (unit result \<times> reaction_paginator \<times> world) option" where
  "on_previous ev s =
     (case s of (h, w) \<Rightarrow>
        if 0 < index h then
          (let h' = h\<lparr>index := index h - 1\<rparr>
           in case getitem (buffer h') (index h') of
                Raise e \<Rightarrow> Some (Raise e, h', w)
              | Return page \<Rightarrow> render h' page w)
        else Some (Return (), h, w))"

text \<open>Running a callback of the table is calling the method it is bound to.\<close>

fun paginator_call ::
  "paginator_callback \<Rightarrow> event \<Rightarrow> reaction_paginator \<times> world
   \<Rightarrow> (unit result \<times> reaction_paginator \<times> world) option" where
  "paginator_call On_first ev s = on_first ev s"
| "paginator_call On_previous ev s = on_previous ev s"
| "paginator_call On_disable ev s = on_disable ev s"
| "paginator_call On_next ev s = on_next ev s"
| "paginator_call On_last ev s = on_last ev s"

text \<open>Modelled from the spec: \<^verbatim>\<open>backoff.Backoff\<close> is not among the sources. It is a
  sequence of waits that "stops after N attempts", so an \<^verbatim>\<open>async for\<close> over
  \<^verbatim>\<open>Backoff(max_retries=n)\<close> runs its body at most \<open>n\<close> times, and \<^verbatim>\<open>reset()\<close> starts the
  count again.\<close>

definition Backoff :: "int \<Rightarrow> nat" where
  "Backoff max_retries = nat max_retries"

text \<open>
  The retry loop of \<^verbatim>\<open>ReactionPaginator.open\<close> for one trigger, with \<open>n\<close> attempts left
  in the retry sequence. \<open>None\<close>: go on to the next trigger; \<open>Some r\<close>: \<^verbatim>\<open>open\<close> ends with
  \<open>r\<close>. When the sequence is used up the \<^verbatim>\<open>else\<close> clause of the loop makes one more
  request, whose failure is not caught.
\<close>

fun add_reaction_loop ::
  "nat \<Rightarrow> real \<Rightarrow> snowflake \<Rightarrow> string \<Rightarrow> reaction_paginator \<times> world
   \<Rightarrow> unit result option \<times> reaction_paginator \<times> world" where
  "add_reaction_loop 0 max_backoff m emoji (h, w) =
     (case rest w of
        (Done, w') \<Rightarrow> (None, h, w'\<lparr>reactions := reactions w' @ [(m, emoji)]\<rparr>)
      | (Failed e, w') \<Rightarrow> (Some (Raise e), h, w'))"
| "add_reaction_loop (Suc n) max_backoff m emoji (h, w) =
     (case rest w of
        (Done, w') \<Rightarrow> (None, h, w'\<lparr>reactions := reactions w' @ [(m, emoji)]\<rparr>)
      | (Failed NotFoundError, w') \<Rightarrow> (Some (Raise NotFoundError), h\<lparr>message := None\<rparr>, w')
      | (Failed ForbiddenError, w') \<Rightarrow> (Some (Return ()), h, w')
      | (Failed (RateLimitedError t), w') \<Rightarrow>
          if max_backoff < t then (Some (Raise (RateLimitedError t)), h, w')
          else add_reaction_loop n max_backoff m emoji (h, w')
      | (Failed InternalServerError, w') \<Rightarrow> add_reaction_loop n max_backoff m emoji (h, w')
      | (Failed e, w') \<Rightarrow> (Some (Raise e), h, w'))"

text \<open>The loop of \<^verbatim>\<open>open\<close> over the triggers.\<close>

fun add_reactions_for ::
  "string list \<Rightarrow> nat \<Rightarrow> real \<Rightarrow> snowflake \<Rightarrow> reaction_paginator \<times> world
   \<Rightarrow> unit result \<times> reaction_paginator \<times> world" where
  "add_reactions_for [] n max_backoff m (h, w) = (Return (), h, w)"
| "add_reactions_for (emoji # emojis) n max_backoff m (h, w) =
     (case add_reaction_loop n max_backoff m emoji (h, w) of
        (Some r, h', w') \<Rightarrow> (r, h', w')
      | (None, h', w') \<Rightarrow> add_reactions_for emojis n max_backoff m (h', w'))"

definition ReactionPaginator_open ::
  "snowflake \<Rightarrow> bool \<Rightarrow> int \<Rightarrow> real \<Rightarrow> reaction_paginator \<times> world
   \<Rightarrow> unit result \<times> reaction_paginator \<times> world" where
  "ReactionPaginator_open m add_reactions max_retries max_backoff s =
     (case s of (h, w) \<Rightarrow>
        (let h' = ReactionHandler_open m h
         in if add_reactions
            then add_reactions_for (triggers h') (Backoff (max_retries - 1)) max_backoff m (h', w)
            else (Return (), h', w)))"




text \<open>The retry loop of \<^verbatim>\<open>create_message\<close> with \<open>n\<close> attempts left, and its \<^verbatim>\<open>else\<close>
  clause. An accepted request creates a message that shows the page.\<close>

definition post_message :: "entry \<Rightarrow> world \<Rightarrow> snowflake result \<times> world" where
  "post_message page w =
     (Return (next_message w),
      w\<lparr>shown := (shown w)(next_message w \<mapsto> page), next_message := Suc (next_message w)\<rparr>)"

fun create_message_loop :: "nat \<Rightarrow> real \<Rightarrow> entry \<Rightarrow> world \<Rightarrow> snowflake result \<times> world" where
  "create_message_loop 0 max_backoff page w =
     (case rest w of
        (Done, w') \<Rightarrow> post_message page w'
      | (Failed e, w') \<Rightarrow> (Raise e, w'))"
| "create_message_loop (Suc n) max_backoff page w =
     (case rest w of
        (Done, w') \<Rightarrow> post_message page w'
      | (Failed (RateLimitedError t), w') \<Rightarrow>
          if max_backoff < t then (Raise (RateLimitedError t), w')
          else create_message_loop n max_backoff page w'
      | (Failed InternalServerError, w') \<Rightarrow> create_message_loop n max_backoff page w'
      | (Failed e, w') \<Rightarrow> (Raise e, w'))"

text \<open>\<^verbatim>\<open>ReactionPaginator.create_message\<close>. The channel only names where the platform
  puts the message.\<close>

definition create_message ::
  "bool \<Rightarrow> int \<Rightarrow> real \<Rightarrow> reaction_paginator \<times> world
   \<Rightarrow> snowflake result \<times> reaction_paginator \<times> world" where
  "create_message add_reactions max_retries max_backoff s =
     (case s of (h, w) \<Rightarrow>
        if message h \<noteq> None then
          (Raise (RuntimeError ''ReactionPaginator is already running''), h, w)
        else
          (case get_next_entry h of
             (Raise e, h1) \<Rightarrow> (Raise e, h1, w)
           | (Return None, h1) \<Rightarrow>
               (Raise (ValueError ''ReactionPaginator iterator yielded no pages.''), h1, w)
           | (Return (Some page), h1) \<Rightarrow>
               (case create_message_loop (Backoff (max_retries - 1)) max_backoff page w of
                  (Raise e, w1) \<Rightarrow> (Raise e, h1, w1)
                | (Return m, w1) \<Rightarrow>
                    (case ReactionPaginator_open m add_reactions max_retries max_backoff (h1, w1) of
                       (Raise e, h2, w2) \<Rightarrow> (Raise e, h2, w2)
                     | (Return u, h2, w2) \<Rightarrow> (Return m, h2, w2)))))"

section \<open>Component interactions (components.py)\<close>

subsection \<open>Context\<close>

text \<open>An \<^verbatim>\<open>asyncio.Future\<close> is pending or holds its result; setting the result of a
  future that has one raises \<^verbatim>\<open>InvalidStateError\<close>.\<close>

datatype 'a future = Pending | Resolved 'a

definition set_result :: "'a \<Rightarrow> 'a future \<Rightarrow> unit result \<times> 'a future" where
  "set_result v f =
     (case f of
        Pending \<Rightarrow> (Return (), Resolved v)
      | Resolved u \<Rightarrow> (Raise InvalidStateError, f))"

text \<open>A component interaction, as far as the dispatch reads it: the message it belongs
  to (\<^verbatim>\<open>interaction.message_id\<close>) and the custom id of the control.\<close>

record interaction =
  component_message_id :: snowflake
  custom_id :: string

text \<open>The fields of \<^verbatim>\<open>Context\<close>; a future is present when the interaction came in over
  the synchronous channel. The response lock only serialises concurrent calls.\<close>

record "context" =
  ephemeral_default :: bool
  has_responded :: bool
  has_been_deferred :: bool
  ctx_interaction :: interaction
  last_response_id :: "snowflake option"
  response_future :: "response future option"

definition Context_init :: "bool \<Rightarrow> interaction \<Rightarrow> response future option \<Rightarrow> context" where
  "Context_init ephemeral i fut =
     \<lparr>ephemeral_default = ephemeral, has_responded = False, has_been_deferred = False,
      ctx_interaction = i, last_response_id = None, response_future = fut\<rparr>"

text \<open>\<^verbatim>\<open>hikari.MessageFlag.EPHEMERAL\<close> is bit 6 and \<^verbatim>\<open>hikari.MessageFlag.NONE\<close> is 0.\<close>

definition get_flags :: "context \<Rightarrow> int option \<Rightarrow> int" where
  "get_flags ctx fl =
     (case fl of
        Some f \<Rightarrow> f
      | None \<Rightarrow> if ephemeral_default ctx then 64 else 0)"

text \<open>\<^verbatim>\<open>Context.defer\<close>. Its guard reads \<^verbatim>\<open>_has_been_deferred\<close> only. Over REST the
  response type sent is \<^verbatim>\<open>DEFERRED_MESSAGE_CREATE\<close> whatever \<open>defer_type\<close> is.\<close>

definition Context_defer ::
  "response_type \<Rightarrow> int option \<Rightarrow> context \<times> world \<Rightarrow> unit result \<times> context \<times> world" where
  "Context_defer defer_type fl s =
     (case s of (ctx, w) \<Rightarrow>
        if has_been_deferred ctx then
          (Raise (RuntimeError ''Context has already been responded to''), ctx, w)
        else
          (let ctx1 = ctx\<lparr>has_been_deferred := True\<rparr>
           in case response_future ctx1 of
                Some fut \<Rightarrow>
                  (case set_result (Deferred_builder defer_type (get_flags ctx fl)) fut of
                     (r, fut') \<Rightarrow> (r, ctx1\<lparr>response_future := Some fut'\<rparr>, w))
              | None \<Rightarrow>
                  (case rest w of
                     (Done, w') \<Rightarrow>
                       (Return (), ctx1,
                        w'\<lparr>initial_responses := initial_responses w' @
                             [Create_initial_response DEFERRED_MESSAGE_CREATE None (get_flags ctx fl)]\<rparr>)
                   | (Failed e, w') \<Rightarrow> (Raise e, ctx1, w'))))"

text \<open>Python truthiness of an optional sequence: given and not empty.\<close>

definition truthy :: "'a list option \<Rightarrow> bool" where
  "truthy xs = (case xs of None \<Rightarrow> False | Some ys \<Rightarrow> ys \<noteq> [])"

text \<open>\<^verbatim>\<open>Context._create_initial_response\<close>.\<close>

definition Context__create_initial_response ::
  "response_args \<Rightarrow> context \<times> world \<Rightarrow> unit result \<times> context \<times> world" where
  "Context__create_initial_response args s =
     (case s of (ctx, w) \<Rightarrow>
        if has_responded ctx then
          (Raise (RuntimeError ''Initial response has already been created''), ctx, w)
        else if has_been_deferred ctx then
          (Raise (RuntimeError
             ''edit_initial_response must be used to set the initial response after a context has been deferred''),
           ctx, w)
        else
          (let ctx1 = ctx\<lparr>has_responded := True\<rparr>
           in case response_future ctx1 of
                None \<Rightarrow>
                  (case rest w of
                     (Done, w') \<Rightarrow>
                       (Return (), ctx1,
                        w'\<lparr>initial_responses := initial_responses w' @
                             [Create_initial_response MESSAGE_CREATE (Some args)
                                (get_flags ctx (arg_flags args))]\<rparr>)
                   | (Failed e, w') \<Rightarrow> (Raise e, ctx1, w'))
              | Some fut \<Rightarrow>
                  if arg_component args \<noteq> None \<and> truthy (arg_components args) then
                    (Raise (ValueError ''Only one of component or components may be passed''), ctx1, w)
                  else if arg_embed args \<noteq> None \<and> truthy (arg_embeds args) then
                    (Raise (ValueError ''Only one of embed or embeds may be passed''), ctx1, w)
                  else
                    (let cs = (case arg_component args of
                                 Some c \<Rightarrow> Some [c] | None \<Rightarrow> arg_components args);
                         es = (case arg_embed args of
                                 Some e \<Rightarrow> Some [e] | None \<Rightarrow> arg_embeds args)
                     in case set_result
                               (Message_builder MESSAGE_CREATE (arg_content args) cs es
                                  (get_flags ctx (arg_flags args))) fut of
                          (r, fut') \<Rightarrow> (r, ctx1\<lparr>response_future := Some fut'\<rparr>, w))))"

text \<open>\<^verbatim>\<open>Context.create_initial_response\<close>: the same under the response lock.\<close>

definition Context_create_initial_response ::
  "response_args \<Rightarrow> context \<times> world \<Rightarrow> unit result \<times> context \<times> world" where
  "Context_create_initial_response args s = Context__create_initial_response args s"

subsection \<open>ComponentExecutor and ComponentClient\<close>

record 'cb component_executor =
  id_to_callback :: "string \<rightharpoonup> 'cb"

record 'cb component_client =
  executors :: "snowflake \<rightharpoonup> 'cb component_executor"

text \<open>The coroutines of components.py handed to \<^verbatim>\<open>asyncio.create_task\<close>: a listener
  called on a context, and an executor's \<^verbatim>\<open>execute\<close>.\<close>

datatype 'cb component_task =
    Listener_task 'cb "context"
  | Execute_task "'cb component_executor" interaction "response future option"

text \<open>\<^verbatim>\<open>ComponentExecutor.execute\<close>: the listener is looked up by subscript, and its
  coroutine is scheduled, not awaited.\<close>

definition ComponentExecutor_execute ::
  "'cb component_executor \<Rightarrow> interaction \<Rightarrow> response future option \<Rightarrow> 'cb component_task list
   \<Rightarrow> unit result \<times> 'cb component_task list" where
  "ComponentExecutor_execute ex i fut queue =
     (let ctx = Context_init False i fut
      in case id_to_callback ex (custom_id i) of
           None \<Rightarrow> (Raise KeyError, queue)
         | Some listener \<Rightarrow> (Return (), queue @ [Listener_task listener ctx]))"

definition ComponentExecutor_add_callback ::
  "string \<Rightarrow> 'cb \<Rightarrow> 'cb component_executor \<Rightarrow> 'cb component_executor" where
  "ComponentExecutor_add_callback i cb ex = ex\<lparr>id_to_callback := (id_to_callback ex)(i \<mapsto> cb)\<rparr>"

definition add_executor ::
  "snowflake \<Rightarrow> 'cb component_executor \<Rightarrow> 'cb component_client \<Rightarrow> 'cb component_client" where
  "add_executor m ex c = c\<lparr>executors := (executors c)(m \<mapsto> ex)\<rparr>"

text \<open>\<^verbatim>\<open>ComponentClient.on_gateway_event\<close> for an event that carries a component
  interaction.\<close>

definition on_gateway_event ::
  "interaction \<Rightarrow> 'cb component_client \<Rightarrow> 'cb component_task list
   \<Rightarrow> unit result \<times> 'cb component_task list" where
  "on_gateway_event i c queue =
     (case executors c (component_message_id i) of
        Some executor \<Rightarrow> ComponentExecutor_execute executor i None queue
      | None \<Rightarrow> (Return (), queue))"

text \<open>
  The two awaitables \<^verbatim>\<open>on_rest_request\<close> passes to \<^verbatim>\<open>asyncio.wait\<close>. \<^verbatim>\<open>asyncio.wait\<close> is
  declared with \<^verbatim>\<open>async def\<close> and the call is not awaited, so it only builds a coroutine
  object and waits for nothing. A coroutine object is not iterable: unpacking it into
  \<^verbatim>\<open>done, pending\<close> raises \<^verbatim>\<open>TypeError\<close>.
\<close>

datatype waitable = The_future | The_execution_task

datatype coroutine = Wait "waitable list"

definition unpack :: "coroutine \<Rightarrow> (waitable list \<times> waitable list) result" where
  "unpack co = Raise (TypeError ''cannot unpack non-iterable coroutine object'')"

text \<open>\<^verbatim>\<open>ComponentClient.on_rest_request\<close>. The result is \<open>None\<close> where the source awaits a
  future that is still pending.\<close>

definition on_rest_request ::
  "interaction \<Rightarrow> 'cb component_client \<Rightarrow> 'cb component_task list
   \<Rightarrow> (response result \<times> 'cb component_task list) option" where
  "on_rest_request i c queue =
     (let fut = (Pending :: response future)
      in case executors c (component_message_id i) of
           Some executor \<Rightarrow>
             (let queue' = queue @ [Execute_task executor i (Some fut)]
              in case unpack (Wait [The_future, The_execution_task]) of
                   Raise e \<Rightarrow> Some (Raise e, queue')
                 | Return (done, pending) \<Rightarrow>
                     if The_future \<in> set done then
                       (case fut of
                          Resolved r \<Rightarrow> Some (Return r, queue')
                        | Pending \<Rightarrow> None)
                     else
                       Some (Raise (RuntimeError ''Execution finished without setting a response''),
                             queue'))
         | None \<Rightarrow> Some (Raise (LookupError ''Not found''), queue))"

section \<open>Scenarios\<close>

text \<open>A platform that accepts every request, with nothing shown and nothing scheduled.\<close>

definition quiet_world :: world where
  "quiet_world =
     \<lparr>shown = Map.empty, reactions = [], initial_responses = [], answers = (\<lambda>k. Done),
      calls = 0, next_message = 100, tasks = []\<rparr>"

text \<open>A platform that answers the first two requests with a server error and accepts
  every later one.\<close>

definition shaky_world :: world where
  "shaky_world =
     \<lparr>shown = Map.empty, reactions = [], initial_responses = [],
      answers = (\<lambda>k. if k < 2 then Failed InternalServerError else Done),
      calls = 0, next_message = 100, tasks = []\<rparr>"

text \<open>The three pages of the scenario of the specification.\<close>

definition three_pages :: "entry list" where
  "three_pages = [(Some ''a'', None), (Some ''b'', None), (Some ''c'', None)]"

text \<open>User \<open>u\<close> reacts to message \<open>m\<close> with a unicode emoji.\<close>

definition press :: "snowflake \<Rightarrow> snowflake \<Rightarrow> string \<Rightarrow> event" where
  "press u m emoji = \<lparr>user_id = u, message_id = m, emoji_id = None, emoji_name = Some emoji\<rparr>"

text \<open>A paginator over \<open>pages\<close> for the author 7, with the default triggers and a timeout
  of 30, built at time 0 and started with \<^verbatim>\<open>create_message\<close> on the quiet platform.\<close>

definition started :: "entry list \<Rightarrow> (reaction_paginator \<times> world) option" where
  "started pages =
     (case create_message True 5 2
             (ReactionPaginator_init pages {7} default_triggers 30 0, quiet_world) of
        (Return m, h, w) \<Rightarrow> Some (h, w)
      | (Raise e, h, w) \<Rightarrow> None)"

text \<open>One more event delivered to the paginator at the instant \<open>now\<close>; a run goes on
  only while the events are processed without an exception.\<close>

definition deliver ::
  "time \<Rightarrow> event \<Rightarrow> (reaction_paginator \<times> world) option \<Rightarrow> (reaction_paginator \<times> world) option" where
  "deliver now ev s =
     (case s of
        None \<Rightarrow> None
      | Some (h, w) \<Rightarrow>
          (case on_reaction_event paginator_call now now ev (h, w) of
             Some (Return u, h', w') \<Rightarrow> Some (h', w')
           | Some (Raise e, h', w') \<Rightarrow> None
           | None \<Rightarrow> None))"


text \<open>A click on the control \<open>x\<close> of message 5, and a plain answer to it.\<close>

definition click :: interaction where
  "click = \<lparr>component_message_id = 5, custom_id = ''x''\<rparr>"

definition hello :: response_args where
  "hello =
     \<lparr>arg_content = Some ''hello'', arg_component = None, arg_components = None,
      arg_embed = None, arg_embeds = None, arg_flags = None, arg_options = []\<rparr>"

text \<open>A handler with one callback, for the key \<open>x\<close>, bound to message 5, last triggered at
  time 0 with a timeout of 30.\<close>

definition bound_handler :: "snowflake set \<Rightarrow> nat reaction_handler" where
  "bound_handler as =
     \<lparr>authors = as, callbacks = [Name ''x'' \<mapsto> 0], last_triggered = 0, message = Some 5,
      timeout = 30\<rparr>"

text \<open>A paginator over \<open>pages\<close> whose only trigger is the jump to the last page, bound to
  message 5 by \<^verbatim>\<open>open\<close> without \<^verbatim>\<open>create_message\<close>.\<close>

definition opened :: "entry list \<Rightarrow> reaction_paginator" where
  "opened pages =
     ReactionHandler_open 5 (ReactionPaginator_init pages {7} [RIGHT_DOUBLE_TRIANGLE] 30 0)"

section \<open>Properties\<close>

subsection \<open>Events a handler does not act on\<close>

lemma on_reaction_event_expired:
  "expired now h \<Longrightarrow>
   on_reaction_event call now later ev (h, w) =
     Some (Raise (RuntimeError ''No active exception to reraise''), h,
           create_task (Close_task (message h)) w)"
  by (simp add: on_reaction_event_def)



text \<open>
  C3, at a failing input. A handler bound to message 5 and registered for it was last
  triggered at time 0 with a timeout of 30; an event for message 5 arrives at time 31.
  The handler raises \<^verbatim>\<open>RuntimeError\<close> (the bare \<^verbatim>\<open>raise\<close>), not \<^verbatim>\<open>HandlerClosed\<close>;
  the registry catches \<^verbatim>\<open>HandlerClosed\<close> only, so the error leaves the registry and the
  entry for message 5 stays in the mapping.
\<close>

theorem expired_handler_is_not_evicted:
  "ReactionClient_on_reaction_event call 31 32 (press 7 5 ''x'')
     (\<lparr>blacklist = [9], listeners = [5 \<mapsto> bound_handler {}]\<rparr>, quiet_world)
   = Some (Raise (RuntimeError ''No active exception to reraise''),
           \<lparr>blacklist = [9], listeners = [5 \<mapsto> bound_handler {}]\<rparr>,
           create_task (Close_task (Some 5)) quiet_world)"
  by (simp add: ReactionClient_on_reaction_event_def on_reaction_event_expired expired_def
      press_def bound_handler_def)

lemma ReactionPaginator_init_fields:
  "message (ReactionPaginator_init it as trs t now) = None"
  "index (ReactionPaginator_init it as trs t now) = 0"
  "buffer (ReactionPaginator_init it as trs t now) = []"
  "iterator (ReactionPaginator_init it as trs t now) = it"
  "last_triggered (ReactionPaginator_init it as trs t now) = now"
  "timeout (ReactionPaginator_init it as trs t now) = t"
  by (simp_all add: ReactionPaginator_init_def add_callback_def Let_def)







subsection \<open>Removing a handler that is not registered\<close>

text \<open>
  C9. \<^verbatim>\<open>ReactionClient.remove_handler\<close> raises \<^verbatim>\<open>KeyError\<close> when no handler is registered
  for the message, leaving the registry as it was, and whatever the registry holds it never
  returns \<^verbatim>\<open>None\<close>.
\<close>

theorem remove_handler_absent_raises:
  "(listeners c m = None \<longrightarrow> remove_handler m c = (Raise KeyError, c))
   \<and> fst (remove_handler m c) \<noteq> Return None"
  by (simp add: remove_handler_def split: option.split)

theorem remove_handler_absent_raises_witness:
  "remove_handler 7 \<lparr>blacklist = [1], listeners = [3 \<mapsto> (0::nat)]\<rparr>
     = (Raise KeyError, \<lparr>blacklist = [1], listeners = [3 \<mapsto> (0::nat)]\<rparr>)
   \<and> fst (remove_handler 7 \<lparr>blacklist = [1], listeners = [3 \<mapsto> (0::nat)]\<rparr>) \<noteq> Return None"
  using remove_handler_absent_raises
    [of "\<lparr>blacklist = [1], listeners = [3 \<mapsto> (0::nat)]\<rparr>" 7]
  by simp

subsection \<open>Starting a paginator\<close>

lemmas emoji_defs =
  LEFT_DOUBLE_TRIANGLE_def LEFT_TRIANGLE_def STOP_SQUARE_def RIGHT_TRIANGLE_def
  RIGHT_DOUBLE_TRIANGLE_def

text \<open>The cursor starts at 0 and no operation of the paginator makes it negative.\<close>

lemma render_state: "render h page w = Some (r, h', w') \<Longrightarrow> h' = h"
  by (auto simp: render_def split: option.splits)

lemma get_next_entry_index:
  "0 \<le> index h \<Longrightarrow> get_next_entry h = (r, h') \<Longrightarrow> 0 \<le> index h'"
  by (auto simp: get_next_entry_def Let_def
      split: if_splits result.splits prod.splits option.splits)

lemma paginator_call_index:
  assumes "0 \<le> index h" and "paginator_call cb ev (h, w) = Some (r, h', w')"
  shows "0 \<le> index h'"
proof (cases cb)
  case On_first
  with assms show ?thesis
    by (auto simp: on_first_def split: if_splits result.splits dest: render_state)
next
  case On_previous
  with assms show ?thesis
    by (auto simp: on_previous_def Let_def split: if_splits result.splits dest!: render_state)
next
  case On_disable
  with assms show ?thesis by (auto simp: on_disable_def split: option.splits)
next
  case On_next
  with assms show ?thesis
    by (auto simp: on_next_def split: prod.splits result.splits option.splits
        dest!: render_state dest: get_next_entry_index)
next
  case On_last
  have "0 < int (length (buffer h @ iterator h))" if "buffer h @ iterator h \<noteq> []"
    using that by (cases "buffer h @ iterator h") simp_all
  with On_last assms show ?thesis
    by (auto simp: on_last_def Let_def split: if_splits dest!: render_state)
qed

lemma get_next_entry_nothing:
  "0 \<le> index h \<Longrightarrow> buffer h = [] \<Longrightarrow> iterator h = [] \<Longrightarrow> get_next_entry h = (Return None, h)"
  by (cases h) (simp add: get_next_entry_def)

text \<open>
  C8. A paginator that is not bound and whose source yields nothing (so its buffer is
  empty as well; the cursor is never negative) fails in \<^verbatim>\<open>create_message\<close> with
  \<^verbatim>\<open>ValueError\<close>: the paginator is returned as it was, unbound, and the platform is
  untouched, so no request was made and no message created.
\<close>

theorem create_message_no_pages:
  "message h = None \<Longrightarrow> 0 \<le> index h \<Longrightarrow> buffer h = [] \<Longrightarrow> iterator h = [] \<Longrightarrow>
   create_message add_reactions max_retries max_backoff (h, w) =
     (Raise (ValueError ''ReactionPaginator iterator yielded no pages.''), h, w)"
  by (simp add: create_message_def get_next_entry_nothing)

theorem create_message_no_pages_witness:
  "create_message True 5 2 (ReactionPaginator_init [] {7} default_triggers 30 0, quiet_world)
   = (Raise (ValueError ''ReactionPaginator iterator yielded no pages.''),
      ReactionPaginator_init [] {7} default_triggers 30 0, quiet_world)
   \<and> message (ReactionPaginator_init [] {7} default_triggers 30 0) = None"
  using create_message_no_pages
    [of "ReactionPaginator_init [] {7} default_triggers 30 0" True 5 2 quiet_world]
  by (simp add: ReactionPaginator_init_fields)

text \<open>
  C10. \<^verbatim>\<open>create_message\<close> on a paginator that is bound raises \<^verbatim>\<open>RuntimeError\<close>; the
  paginator (its message, buffer, cursor and iterator) and the platform are as before.
\<close>

theorem create_message_running:
  "message h \<noteq> None \<Longrightarrow>
   create_message add_reactions max_retries max_backoff (h, w) =
     (Raise (RuntimeError ''ReactionPaginator is already running''), h, w)"
  by (simp add: create_message_def)

theorem create_message_running_witness:
  "create_message True 5 2 (opened three_pages, quiet_world)
   = (Raise (RuntimeError ''ReactionPaginator is already running''), opened three_pages,
      quiet_world)
   \<and> message (opened three_pages) = Some 5"
  using create_message_running [of "opened three_pages" True 5 2 quiet_world]
  by (simp add: opened_def ReactionHandler_open_def)

subsection \<open>Rendering and the jump to the last page\<close>

lemma edit_message_accepted:
  "message h = Some m \<Longrightarrow> answers w (calls w) = Done \<Longrightarrow>
   edit_message h c e w =
     Some (Return (), w\<lparr>calls := Suc (calls w), shown := (shown w)(m \<mapsto> (c, e))\<rparr>)"
  by (subst edit_message.simps) (simp add: rest_def)

text \<open>The edit loop returns as soon as the platform accepts, however many server errors
  and rate limits came before.\<close>

lemma edit_message_retried:
  "message h = Some m \<Longrightarrow> (\<forall>j<k. retried (answers w (calls w + j))) \<Longrightarrow>
   answers w (calls w + k) = Done \<Longrightarrow>
   edit_message h c e w =
     Some (Return (), w\<lparr>calls := Suc (calls w + k), shown := (shown w)(m \<mapsto> (c, e))\<rparr>)"
proof (induction k arbitrary: w)
  case 0
  then show ?case by (subst edit_message.simps) (simp add: rest_def)
next
  case (Suc k)
  let ?w = "w\<lparr>calls := Suc (calls w)\<rparr>"
  from Suc.prems(2) have r: "retried (answers w (calls w))"
    by (metis add.right_neutral zero_less_Suc)
  have "\<forall>j<k. retried (answers ?w (calls ?w + j))" using Suc.prems(2) by auto
  moreover have "answers ?w (calls ?w + k) = Done" using Suc.prems(3) by simp
  ultimately have "edit_message h c e ?w =
     Some (Return (), ?w\<lparr>calls := Suc (calls ?w + k), shown := (shown ?w)(m \<mapsto> (c, e))\<rparr>)"
    using Suc.IH [of ?w] Suc.prems(1) by blast
  then have ih: "edit_message h c e ?w =
     Some (Return (), w\<lparr>calls := Suc (calls w + Suc k), shown := (shown w)(m \<mapsto> (c, e))\<rparr>)"
    by simp
  have step: "edit_message h c e w = edit_message h c e ?w"
    using r Suc.prems(1)
    by (subst edit_message.simps)
       (auto simp: rest_def retried_def split: reply.splits error.splits)
  show ?case by (simp only: step ih)
qed

lemma render_retried:
  "message h = Some m \<Longrightarrow> (\<forall>j<k. retried (answers w (calls w + j))) \<Longrightarrow>
   answers w (calls w + k) = Done \<Longrightarrow>
   render h page w =
     Some (Return (), h, w\<lparr>calls := Suc (calls w + k), shown := (shown w)(m \<mapsto> page)\<rparr>)"
  by (simp add: render_def edit_message_retried)

lemma render_accepted:
  "message h = Some m \<Longrightarrow> answers w (calls w) = Done \<Longrightarrow>
   render h page w =
     Some (Return (), h, w\<lparr>calls := Suc (calls w), shown := (shown w)(m \<mapsto> page)\<rparr>)"
  by (simp add: render_def edit_message_accepted)

lemma on_last_returned:
  assumes a: "on_last ev (h, w) = Some (r, h', w')"
  shows "buffer h' = buffer h @ iterator h \<and> iterator h' = [] \<and>
      (if buffer h' = [] then index h' = index h \<and> w' = w \<and> r = Return ()
       else index h' = int (length (buffer h')) - 1)"
proof (cases "buffer h @ iterator h = []")
  case True
  with a show ?thesis by (auto simp: on_last_def)
next
  case False
  with a have "render (h\<lparr>buffer := buffer h @ iterator h, iterator := [],
        index := int (length (buffer h @ iterator h)) - 1\<rparr>) (last (buffer h @ iterator h)) w
      = Some (r, h', w')"
    by (auto simp: on_last_def Let_def split: if_splits)
  from render_state [OF this] False show ?thesis by auto
qed

lemma on_last_retried:
  assumes "message h = Some m" and "\<forall>j<k. retried (answers w (calls w + j))"
    and "answers w (calls w + k) = Done" and "buffer h @ iterator h \<noteq> []"
  shows "on_last ev (h, w) =
          Some (Return (),
                h\<lparr>buffer := buffer h @ iterator h, iterator := [],
                  index := int (length (buffer h @ iterator h)) - 1\<rparr>,
                w\<lparr>calls := Suc (calls w + k),
                  shown := (shown w)(m \<mapsto> last (buffer h @ iterator h))\<rparr>)"
proof -
  let ?h = "h\<lparr>buffer := buffer h @ iterator h, iterator := [],
      index := int (length (buffer h @ iterator h)) - 1\<rparr>"
  have "message ?h = Some m" using assms(1) by simp
  from render_retried [OF this assms(2) assms(3)] assms(4) show ?thesis
    by (auto simp: on_last_def Let_def)
qed

text \<open>
  C7, as amended. Whenever \<^verbatim>\<open>_on_last\<close> returns or raises, the whole rest of the source
  has joined the buffer; if the buffer is then empty, the cursor and the platform are as
  before and nothing is shown; otherwise the cursor is the last index of the buffer. And
  it does return when the paginator is bound, the buffer is not empty afterwards and the
  platform accepts the edit after \<open>k\<close> attempts that are retried: the bound message then
  shows the last page of the buffer.
\<close>

theorem on_last_drains_source:
  "(on_last ev (h, w) = Some (r, h', w') \<longrightarrow>
      buffer h' = buffer h @ iterator h \<and> iterator h' = [] \<and>
      (if buffer h' = [] then index h' = index h \<and> w' = w \<and> r = Return ()
       else index h' = int (length (buffer h')) - 1))
   \<and> (message h = Some m \<and> (\<forall>j<k. retried (answers w (calls w + j)))
        \<and> answers w (calls w + k) = Done \<and> buffer h @ iterator h \<noteq> [] \<longrightarrow>
        on_last ev (h, w) =
          Some (Return (),
                h\<lparr>buffer := buffer h @ iterator h, iterator := [],
                  index := int (length (buffer h @ iterator h)) - 1\<rparr>,
                w\<lparr>calls := Suc (calls w + k),
                  shown := (shown w)(m \<mapsto> last (buffer h @ iterator h))\<rparr>))"
  using on_last_returned [of ev h w r h' w'] on_last_retried [of h m k w ev] by blast

text \<open>On the platform that fails twice, the third attempt shows page \<open>c\<close>.\<close>

theorem on_last_drains_source_witness:
  "on_last (press 7 5 RIGHT_DOUBLE_TRIANGLE) (opened three_pages, shaky_world)
   = Some (Return (),
           (opened three_pages)\<lparr>buffer := three_pages, iterator := [], index := 2\<rparr>,
           shaky_world\<lparr>calls := 3, shown := [5 \<mapsto> (Some ''c'', None)]\<rparr>)"
  using on_last_drains_source
    [of "press 7 5 RIGHT_DOUBLE_TRIANGLE" "opened three_pages" shaky_world "Return ()"
        "(opened three_pages)\<lparr>buffer := three_pages, iterator := [], index := 2\<rparr>"
        "shaky_world\<lparr>calls := 3, shown := [5 \<mapsto> (Some ''c'', None)]\<rparr>" 5 2]
  by (simp add: opened_def ReactionHandler_open_def ReactionPaginator_init_fields
      shaky_world_def three_pages_def retried_def)

text \<open>
  C7 as stated fails for a paginator over an empty source that was bound by \<^verbatim>\<open>open\<close>:
  the jump to the last page returns normally, the buffer is empty, the cursor stays 0,
  which is not the buffer's length minus one, and message 5 shows nothing.
\<close>

theorem on_last_counterexample:
  "(case on_reaction_event paginator_call 1 2 (press 7 5 RIGHT_DOUBLE_TRIANGLE)
           (opened [], quiet_world) of
      Some (r, h', w') \<Rightarrow>
        r = Return () \<and> buffer h' = [] \<and> index h' = 0
        \<and> index h' \<noteq> int (length (buffer h')) - 1 \<and> shown w' 5 = None
    | None \<Rightarrow> False)"
  by (simp add: opened_def ReactionHandler_open_def ReactionPaginator_init_def add_callback_def
      emoji_defs on_reaction_event_def expired_def press_def emoji_identifier_of_def
      on_last_def quiet_world_def)

subsection \<open>Stepping forward and backward\<close>

lemma add_reaction_loop_accepted:
  "answers w (calls w) = Done \<Longrightarrow>
   add_reaction_loop n max_backoff m emoji (h, w) =
     (None, h, w\<lparr>calls := Suc (calls w), reactions := reactions w @ [(m, emoji)]\<rparr>)"
  by (cases n) (simp_all add: rest_def)

lemma create_message_loop_accepted:
  "answers w (calls w) = Done \<Longrightarrow>
   create_message_loop n max_backoff page w =
     (Return (next_message w),
      w\<lparr>calls := Suc (calls w), shown := (shown w)(next_message w \<mapsto> page),
        next_message := Suc (next_message w)\<rparr>)"
  by (cases n) (simp_all add: rest_def post_message_def)

lemma on_next_pull:
  "\<not> index h + 2 \<le> int (length (buffer h)) \<Longrightarrow> iterator h = page # it \<Longrightarrow>
   message h = Some m \<Longrightarrow> answers w (calls w) = Done \<Longrightarrow>
   on_next ev (h, w) =
     Some (Return (), h\<lparr>index := index h + 1, buffer := buffer h @ [page], iterator := it\<rparr>,
           w\<lparr>calls := Suc (calls w), shown := (shown w)(m \<mapsto> page)\<rparr>)"
  by (simp add: on_next_def get_next_entry_def render_accepted)

lemma on_previous_back:
  "0 < index h \<Longrightarrow> index h \<le> int (length (buffer h)) \<Longrightarrow>
   message h = Some m \<Longrightarrow> answers w (calls w) = Done \<Longrightarrow>
   on_previous ev (h, w) =
     Some (Return (), h\<lparr>index := index h - 1\<rparr>,
           w\<lparr>calls := Suc (calls w), shown := (shown w)(m \<mapsto> buffer h ! nat (index h - 1))\<rparr>)"
  by (simp add: on_previous_def getitem_def Let_def render_accepted)

lemma init_default_triggers:
  "ReactionPaginator_init pages {7} [LEFT_TRIANGLE, STOP_SQUARE, RIGHT_TRIANGLE] 30 0 =
     \<lparr>authors = {7},
      callbacks = [Name LEFT_TRIANGLE \<mapsto> On_previous, Name STOP_SQUARE \<mapsto> On_disable,
                   Name RIGHT_TRIANGLE \<mapsto> On_next],
      last_triggered = 0, message = None, timeout = 30,
      buffer = [], index = 0, iterator = pages,
      triggers = [LEFT_TRIANGLE, STOP_SQUARE, RIGHT_TRIANGLE]\<rparr>"
  by (simp add: ReactionPaginator_init_def add_callback_def emoji_defs)

text \<open>After \<^verbatim>\<open>create_message\<close> the first page is shown and is the only page of the
  buffer, and the cursor is 1.\<close>

lemma started_three_pages:
  "started three_pages =
     Some (\<lparr>authors = {7},
            callbacks = [Name LEFT_TRIANGLE \<mapsto> On_previous, Name STOP_SQUARE \<mapsto> On_disable,
                         Name RIGHT_TRIANGLE \<mapsto> On_next],
            last_triggered = 0, message = Some 100, timeout = 30,
            buffer = [(Some ''a'', None)], index = 1,
            iterator = [(Some ''b'', None), (Some ''c'', None)], triggers = default_triggers\<rparr>,
           \<lparr>shown = [100 \<mapsto> (Some ''a'', None)],
            reactions = [(100, LEFT_TRIANGLE), (100, STOP_SQUARE), (100, RIGHT_TRIANGLE)],
            initial_responses = [], answers = (\<lambda>k. Done), calls = 4, next_message = 101,
            tasks = []\<rparr>)"
  by (simp add: started_def init_default_triggers three_pages_def create_message_def
      get_next_entry_def create_message_loop_accepted ReactionPaginator_open_def
      ReactionHandler_open_def add_reaction_loop_accepted quiet_world_def default_triggers_def)

lemmas deliver_defs =
  deliver_def press_def on_reaction_event_def expired_def emoji_identifier_of_def emoji_defs
  default_triggers_def

lemma after_next:
  "deliver 1 (press 7 100 RIGHT_TRIANGLE) (started three_pages) =
     Some (\<lparr>authors = {7},
            callbacks = [Name LEFT_TRIANGLE \<mapsto> On_previous, Name STOP_SQUARE \<mapsto> On_disable,
                         Name RIGHT_TRIANGLE \<mapsto> On_next],
            last_triggered = 1, message = Some 100, timeout = 30,
            buffer = [(Some ''a'', None), (Some ''b'', None)], index = 2,
            iterator = [(Some ''c'', None)], triggers = default_triggers\<rparr>,
           \<lparr>shown = [100 \<mapsto> (Some ''b'', None)],
            reactions = [(100, LEFT_TRIANGLE), (100, STOP_SQUARE), (100, RIGHT_TRIANGLE)],
            initial_responses = [], answers = (\<lambda>k. Done), calls = 5, next_message = 101,
            tasks = []\<rparr>)"
  by (simp add: started_three_pages) (simp add: deliver_defs on_next_pull)

lemma after_next_next:
  "deliver 2 (press 7 100 RIGHT_TRIANGLE)
     (deliver 1 (press 7 100 RIGHT_TRIANGLE) (started three_pages)) =
     Some (\<lparr>authors = {7},
            callbacks = [Name LEFT_TRIANGLE \<mapsto> On_previous, Name STOP_SQUARE \<mapsto> On_disable,
                         Name RIGHT_TRIANGLE \<mapsto> On_next],
            last_triggered = 2, message = Some 100, timeout = 30,
            buffer = [(Some ''a'', None), (Some ''b'', None), (Some ''c'', None)], index = 3,
            iterator = [], triggers = default_triggers\<rparr>,
           \<lparr>shown = [100 \<mapsto> (Some ''c'', None)],
            reactions = [(100, LEFT_TRIANGLE), (100, STOP_SQUARE), (100, RIGHT_TRIANGLE)],
            initial_responses = [], answers = (\<lambda>k. Done), calls = 6, next_message = 101,
            tasks = []\<rparr>)"
  by (simp add: after_next) (simp add: deliver_defs on_next_pull)

lemma after_next_next_previous:
  "deliver 3 (press 7 100 LEFT_TRIANGLE)
     (deliver 2 (press 7 100 RIGHT_TRIANGLE)
       (deliver 1 (press 7 100 RIGHT_TRIANGLE) (started three_pages))) =
     Some (\<lparr>authors = {7},
            callbacks = [Name LEFT_TRIANGLE \<mapsto> On_previous, Name STOP_SQUARE \<mapsto> On_disable,
                         Name RIGHT_TRIANGLE \<mapsto> On_next],
            last_triggered = 3, message = Some 100, timeout = 30,
            buffer = [(Some ''a'', None), (Some ''b'', None), (Some ''c'', None)], index = 2,
            iterator = [], triggers = default_triggers\<rparr>,
           \<lparr>shown = [100 \<mapsto> (Some ''c'', None)],
            reactions = [(100, LEFT_TRIANGLE), (100, STOP_SQUARE), (100, RIGHT_TRIANGLE)],
            initial_responses = [], answers = (\<lambda>k. Done), calls = 7, next_message = 101,
            tasks = []\<rparr>)"
  by (simp add: after_next_next) (simp add: deliver_defs on_previous_back)

lemma after_next_previous:
  "deliver 2 (press 7 100 LEFT_TRIANGLE)
     (deliver 1 (press 7 100 RIGHT_TRIANGLE) (started three_pages)) =
     Some (\<lparr>authors = {7},
            callbacks = [Name LEFT_TRIANGLE \<mapsto> On_previous, Name STOP_SQUARE \<mapsto> On_disable,
                         Name RIGHT_TRIANGLE \<mapsto> On_next],
            last_triggered = 2, message = Some 100, timeout = 30,
            buffer = [(Some ''a'', None), (Some ''b'', None)], index = 1,
            iterator = [(Some ''c'', None)], triggers = default_triggers\<rparr>,
           \<lparr>shown = [100 \<mapsto> (Some ''b'', None)],
            reactions = [(100, LEFT_TRIANGLE), (100, STOP_SQUARE), (100, RIGHT_TRIANGLE)],
            initial_responses = [], answers = (\<lambda>k. Done), calls = 6, next_message = 101,
            tasks = []\<rparr>)"
  by (simp add: after_next) (simp add: deliver_defs on_previous_back)

text \<open>
  C1, at a failing input. The paginator over the pages \<open>a\<close>, \<open>b\<close>, \<open>c\<close> for the author 7
  is started with \<^verbatim>\<open>create_message\<close>, which shows \<open>a\<close> as message 100; every request is
  accepted and every event comes from the author before the timeout. After next, next,
  previous the message shows \<open>c\<close>, and the cursor is 2. After next, previous it shows
  \<open>b\<close>, not the first page, and the cursor is 1.
\<close>

theorem next_next_previous_shows_c:
  "map_option (\<lambda>(h, w). (shown w 100, index h, buffer h))
     (deliver 3 (press 7 100 LEFT_TRIANGLE)
       (deliver 2 (press 7 100 RIGHT_TRIANGLE)
         (deliver 1 (press 7 100 RIGHT_TRIANGLE) (started three_pages))))
   = Some (Some (Some ''c'', None), 2, three_pages)
   \<and> map_option (\<lambda>(h, w). (shown w 100, index h, buffer h))
       (deliver 2 (press 7 100 LEFT_TRIANGLE)
         (deliver 1 (press 7 100 RIGHT_TRIANGLE) (started three_pages)))
     = Some (Some (Some ''b'', None), 1, [(Some ''a'', None), (Some ''b'', None)])"
  unfolding after_next_next_previous after_next_previous
  by (simp add: three_pages_def)

subsection \<open>The synchronous delivery path\<close>

lemma on_rest_request_registered:
  "executors c (component_message_id i) = Some ex \<Longrightarrow>
   on_rest_request i c queue =
     Some (Raise (TypeError ''cannot unpack non-iterable coroutine object''),
           queue @ [Execute_task ex i (Some Pending)])"
  by (simp add: on_rest_request_def unpack_def)

lemma on_rest_request_not_found:
  "executors c (component_message_id i) = None \<Longrightarrow>
   on_rest_request i c queue = Some (Raise (LookupError ''Not found''), queue)"
  by (simp add: on_rest_request_def)

text \<open>
  C2, at a failing input. An executor with a callback for \<open>x\<close> is registered for message
  5 and the click on \<open>x\<close> of message 5 comes in over the synchronous channel. The request
  fails with \<^verbatim>\<open>TypeError\<close> as soon as the execution task has been scheduled, before any
  callback has run; it is not the \<^verbatim>\<open>RuntimeError\<close> that reports a missing response.
  With the executor registered for message 6 instead, the request fails with
  \<^verbatim>\<open>LookupError("Not found")\<close>.
\<close>

theorem on_rest_request_type_error:
  "on_rest_request click \<lparr>executors = [5 \<mapsto> \<lparr>id_to_callback = [''x'' \<mapsto> (0::nat)]\<rparr>]\<rparr> []
     = Some (Raise (TypeError ''cannot unpack non-iterable coroutine object''),
             [Execute_task \<lparr>id_to_callback = [''x'' \<mapsto> 0]\<rparr> click (Some Pending)])
   \<and> on_rest_request click \<lparr>executors = [6 \<mapsto> \<lparr>id_to_callback = [''x'' \<mapsto> (0::nat)]\<rparr>]\<rparr> []
     = Some (Raise (LookupError ''Not found''), [])"
  by (simp add: on_rest_request_def unpack_def click_def)

subsection \<open>Initial responses of a context\<close>

lemma defer_twice:
  "has_been_deferred ctx \<Longrightarrow>
   Context_defer t fl (ctx, w) =
     (Raise (RuntimeError ''Context has already been responded to''), ctx, w)"
  by (simp add: Context_defer_def)

lemma create_initial_response_twice:
  "has_responded ctx \<Longrightarrow>
   Context_create_initial_response args (ctx, w) =
     (Raise (RuntimeError ''Initial response has already been created''), ctx, w)"
  by (simp add: Context_create_initial_response_def Context__create_initial_response_def)

lemma create_initial_response_after_defer:
  "\<not> has_responded ctx \<Longrightarrow> has_been_deferred ctx \<Longrightarrow>
   Context_create_initial_response args (ctx, w) =
     (Raise (RuntimeError
        ''edit_initial_response must be used to set the initial response after a context has been deferred''),
      ctx, w)"
  by (simp add: Context_create_initial_response_def Context__create_initial_response_def)

text \<open>
  C6, at a failing input: \<^verbatim>\<open>defer\<close> after \<^verbatim>\<open>create_initial_response\<close> on a fresh context.
  Without a response future \<^verbatim>\<open>defer\<close> returns normally and a second initial response
  has gone to the platform; with a response future it raises \<^verbatim>\<open>InvalidStateError\<close>
  from the second \<^verbatim>\<open>set_result\<close>. In both cases the context ends with both flags set,
  and no \<^verbatim>\<open>RuntimeError\<close> is raised.
\<close>

theorem defer_after_response_not_rejected:
  "Context_defer DEFERRED_MESSAGE_CREATE None
     (snd (Context_create_initial_response hello (Context_init False click None, quiet_world)))
   = (Return (),
      \<lparr>ephemeral_default = False, has_responded = True, has_been_deferred = True,
        ctx_interaction = click, last_response_id = None, response_future = None\<rparr>,
      quiet_world\<lparr>calls := 2,
        initial_responses :=
          [Create_initial_response MESSAGE_CREATE (Some hello) 0,
           Create_initial_response DEFERRED_MESSAGE_CREATE None 0]\<rparr>)
   \<and> Context_defer DEFERRED_MESSAGE_CREATE None
       (snd (Context_create_initial_response hello
               (Context_init False click (Some Pending), quiet_world)))
     = (Raise InvalidStateError,
        \<lparr>ephemeral_default = False, has_responded = True, has_been_deferred = True,
          ctx_interaction = click, last_response_id = None,
          response_future =
            Some (Resolved (Message_builder MESSAGE_CREATE (Some ''hello'') None None 0))\<rparr>,
        quiet_world)"
  by (simp add: Context_defer_def Context_create_initial_response_def
      Context__create_initial_response_def Context_init_def quiet_world_def rest_def
      get_flags_def hello_def set_result_def truthy_def)

end
